theory Spec2Isabelle
  imports Main "HOL-Library.Word" "HOL-Library.Char_ord" "HOL-Library.List_Lexorder"
    "HOL-Library.Multiset"
begin

section \<open>go-xattr-fuse: extended attributes kept in a bolt database\<close>

text \<open>
  The program (\<^verbatim>\<open>go-xattr-fuse.go\<close>) is a FUSE overlay. Its four attribute calls
  (\<^verbatim>\<open>SetXAttr\<close>, \<^verbatim>\<open>GetXAttr\<close>, \<^verbatim>\<open>ListXAttr\<close>, \<^verbatim>\<open>RemoveXAttr\<close>) work on the
  process-wide bolt handle \<^verbatim>\<open>db\<close>, one bucket per path; every other call is handed to
  the embedded \<^verbatim>\<open>pathfs.FileSystem\<close>.

  The embedding is sequential: one call at a time, the database passed in and
  returned. Calls to \<^verbatim>\<open>slog\<close> only write a trace and are left out.
\<close>

subsection \<open>Values of the Go program\<close>

type_synonym byte = "8 word"

text \<open>\<^verbatim>\<open>fuse.Status\<close> is an \<^verbatim>\<open>int32\<close> holding an errno; the four the program names.\<close>

type_synonym Status = "32 word"

definition OK :: Status where "OK = 0"
definition ENOENT :: Status where "ENOENT = 2"
definition EIO :: Status where "EIO = 5"
definition EBUSY :: Status where "EBUSY = 16"

text \<open>
  A Go call either returns or panics. A nil pointer or a nil slice is \<open>None\<close>.
\<close>

datatype 'a outcome = Panic | Returns 'a

subsection \<open>The bolt database, as far as the program uses it\<close>

text \<open>
  bolt (\<^verbatim>\<open>github.com/boltdb/bolt\<close>) is a library, not part of this repository. What
  follows is its documented behaviour for the calls the program makes: a database
  is a B+tree of named buckets, a bucket a B+tree of key/value pairs, both walked by
  a cursor in byte order of the keys. A list of pairs in cursor order stands for
  each tree. A transaction works on a private copy of the buckets, which replaces
  the database's on \<^verbatim>\<open>Commit\<close> and is thrown away on \<^verbatim>\<open>Rollback\<close>.

  The errors are those bolt documents for each call: \<^verbatim>\<open>Begin\<close> on a database that is
  not open, \<^verbatim>\<open>CreateBucketIfNotExists\<close> with a blank name, \<^verbatim>\<open>Put\<close> with a blank key,
  a key above \<^verbatim>\<open>MaxKeySize\<close> or a value above \<^verbatim>\<open>MaxValueSize\<close>, a write through a
  read-only transaction, and a \<^verbatim>\<open>Commit\<close> whose write to the file fails.
\<close>

type_synonym Bucket = "(string \<times> byte list) list"

record DB =
  opened :: bool
  buckets :: "(string \<times> Bucket) list"

record Tx =
  writable :: bool
  root :: "(string \<times> Bucket) list"

datatype error =
    ErrDatabaseNotOpen
  | ErrTxNotWritable
  | ErrBucketNameRequired
  | ErrKeyRequired
  | ErrKeyTooLarge
  | ErrValueTooLarge
  | ErrDisk

definition MaxKeySize :: nat where "MaxKeySize = 32768"
definition MaxValueSize :: nat where "MaxValueSize = 2147483646"

text \<open>Writing a key into a tree: the pair replaces the one with that key, or goes in at
  its place in the order.\<close>

fun tree_put :: "string \<Rightarrow> 'v \<Rightarrow> (string \<times> 'v) list \<Rightarrow> (string \<times> 'v) list" where
  "tree_put k v [] = [(k, v)]"
| "tree_put k v ((k', v') # kvs) =
     (if k = k' then (k, v) # kvs
      else if k < k' then (k, v) # (k', v') # kvs
      else (k', v') # tree_put k v kvs)"

text \<open>Taking a key out of a tree (its keys are unique); nothing happens when the key
  is not there.\<close>

fun tree_delete :: "string \<Rightarrow> (string \<times> 'v) list \<Rightarrow> (string \<times> 'v) list" where
  "tree_delete k [] = []"
| "tree_delete k ((k', v') # kvs) =
     (if k = k' then tree_delete k kvs else (k', v') # tree_delete k kvs)"

text \<open>A \<^verbatim>\<open>*bolt.Bucket\<close> points into its transaction; here it is the bucket's name, and
  a write through it changes the bucket of that name in the transaction.\<close>

definition in_bucket :: "string \<Rightarrow> (Bucket \<Rightarrow> Bucket) \<Rightarrow> (string \<times> Bucket) list \<Rightarrow> (string \<times> Bucket) list" where
  "in_bucket b f bs = map (\<lambda>(name, kvs). if name = b then (name, f kvs) else (name, kvs)) bs"

text \<open>\<^verbatim>\<open>db.Begin(writable)\<close> gives a transaction or an error, never both: it fails on a
  database that is not open.\<close>

definition Begin :: "DB \<Rightarrow> bool \<Rightarrow> error + Tx" where
  "Begin d w =
     (if opened d then Inr \<lparr>writable = w, root = buckets d\<rparr>
      else Inl ErrDatabaseNotOpen)"

text \<open>\<^verbatim>\<open>tx.Bucket(name)\<close>: nil when there is no bucket of that name.\<close>

definition Bucket :: "Tx \<Rightarrow> string \<Rightarrow> string option" where
  "Bucket tx name = (case map_of (root tx) name of None \<Rightarrow> None | Some _ \<Rightarrow> Some name)"

text \<open>\<^verbatim>\<open>b.Cursor()\<close> with \<^verbatim>\<open>First\<close>/\<^verbatim>\<open>Next\<close>: the pairs of the bucket, in order.\<close>

definition Cursor :: "Tx \<Rightarrow> string \<Rightarrow> Bucket" where
  "Cursor tx b = (case map_of (root tx) b of None \<Rightarrow> [] | Some kvs \<Rightarrow> kvs)"

text \<open>\<^verbatim>\<open>tx.CreateBucketIfNotExists(name)\<close>: an empty name is refused.\<close>

definition CreateBucketIfNotExists :: "Tx \<Rightarrow> string \<Rightarrow> (error + string) \<times> Tx" where
  "CreateBucketIfNotExists tx name =
     (if \<not> writable tx then (Inl ErrTxNotWritable, tx)
      else if length name = 0 then (Inl ErrBucketNameRequired, tx)
      else (case map_of (root tx) name of
              Some _ \<Rightarrow> (Inr name, tx)
            | None \<Rightarrow> (Inr name, tx\<lparr>root := tree_put name [] (root tx)\<rparr>)))"

text \<open>\<^verbatim>\<open>b.Put(key, value)\<close>: refuses an empty key, a key above \<^verbatim>\<open>MaxKeySize\<close> and a
  value above \<^verbatim>\<open>MaxValueSize\<close>, and then writes nothing.\<close>

definition Put :: "Tx \<Rightarrow> string \<Rightarrow> string \<Rightarrow> byte list \<Rightarrow> error option \<times> Tx" where
  "Put tx b key val =
     (if \<not> writable tx then (Some ErrTxNotWritable, tx)
      else if length key = 0 then (Some ErrKeyRequired, tx)
      else if length key > MaxKeySize then (Some ErrKeyTooLarge, tx)
      else if length val > MaxValueSize then (Some ErrValueTooLarge, tx)
      else (None, tx\<lparr>root := in_bucket b (tree_put key val) (root tx)\<rparr>))"

text \<open>\<^verbatim>\<open>b.Delete(key)\<close>: a key that is not there is no error.\<close>

definition Delete :: "Tx \<Rightarrow> string \<Rightarrow> string \<Rightarrow> error option \<times> Tx" where
  "Delete tx b key =
     (if \<not> writable tx then (Some ErrTxNotWritable, tx)
      else (None, tx\<lparr>root := in_bucket b (tree_delete key) (root tx)\<rparr>))"

text \<open>\<^verbatim>\<open>tx.Commit()\<close>: \<open>disk\<close> is what writing the pages to the file gives, which the
  program does not control. On an error the database keeps its old contents.\<close>

definition Commit :: "error option \<Rightarrow> Tx \<Rightarrow> DB \<Rightarrow> error option \<times> DB" where
  "Commit disk tx d =
     (if \<not> writable tx then (Some ErrTxNotWritable, d)
      else (case disk of
              Some e \<Rightarrow> (Some e, d)
            | None \<Rightarrow> (None, d\<lparr>buckets := root tx\<rparr>)))"

text \<open>\<^verbatim>\<open>defer tx.Rollback()\<close>: runs when the function leaves. \<^verbatim>\<open>Rollback\<close> reads a field
  of its receiver first, so on a nil \<^verbatim>\<open>*bolt.Tx\<close> it panics; on a transaction it drops
  the private copy (or, after \<^verbatim>\<open>Commit\<close>, does nothing) and the function's result
  stands.\<close>

definition deferred_Rollback :: "Tx option \<Rightarrow> 'a outcome \<Rightarrow> 'a outcome" where
  "deferred_Rollback tx body = (case tx of None \<Rightarrow> Panic | Some _ \<Rightarrow> body)"

subsection \<open>The attribute calls\<close>

definition SetXAttr :: "error option \<Rightarrow> DB \<Rightarrow> string \<Rightarrow> string \<Rightarrow> byte list \<Rightarrow> int \<Rightarrow> (Status \<times> DB) outcome" where
  "SetXAttr disk d name attr data flags =
     (case Begin d True of
        Inl err \<Rightarrow> Returns (EBUSY, d)
      | Inr tx \<Rightarrow>
          deferred_Rollback (Some tx)
            (case CreateBucketIfNotExists tx name of
               (Inl err, _) \<Rightarrow> Returns (EIO, d)
             | (Inr b, tx1) \<Rightarrow>
                 (case Put tx1 b attr data of
                    (_, tx2) \<Rightarrow>
                      (case Commit disk tx2 d of
                         (Some err, d') \<Rightarrow> Returns (EIO, d')
                       | (None, d') \<Rightarrow> Returns (OK, d')))))"

definition boltBucket :: "DB \<Rightarrow> string \<Rightarrow> Tx option \<times> string option \<times> Bucket option \<times> Status" where
  "boltBucket d name =
     (case Begin d True of
        Inl err \<Rightarrow> (None, None, None, EBUSY)
      | Inr tx \<Rightarrow>
          (case Bucket tx name of
             None \<Rightarrow> (Some tx, None, None, ENOENT)
           | Some b \<Rightarrow> (Some tx, Some b, Some (Cursor tx b), OK)))"

text \<open>The loop of \<^verbatim>\<open>GetXAttr\<close> over the cursor. The value it returns is a slice of the
  transaction's memory; the model takes the bytes it holds when the loop reads it.\<close>

fun GetXAttr_loop :: "Bucket \<Rightarrow> string \<Rightarrow> byte list option \<times> Status" where
  "GetXAttr_loop [] attr = (None, OK)"
| "GetXAttr_loop ((k, v) # c) attr =
     (if k = attr then (Some v, OK) else GetXAttr_loop c attr)"

definition GetXAttr :: "DB \<Rightarrow> string \<Rightarrow> string \<Rightarrow> ((byte list option \<times> Status) \<times> DB) outcome" where
  "GetXAttr d name attr =
     (case boltBucket d name of
        (tx, _, c, err) \<Rightarrow>
          deferred_Rollback tx
            (if err \<noteq> OK then Returns ((None, err), d)
             else (case c of
                     None \<Rightarrow> Panic
                   | Some kvs \<Rightarrow> Returns (GetXAttr_loop kvs attr, d))))"

text \<open>The loop of \<^verbatim>\<open>ListXAttr\<close>: every key is appended to \<open>lis\<close>.\<close>

fun ListXAttr_loop :: "Bucket \<Rightarrow> string list \<Rightarrow> string list" where
  "ListXAttr_loop [] lis = lis"
| "ListXAttr_loop ((k, v) # c) lis = ListXAttr_loop c (lis @ [k])"

definition ListXAttr :: "DB \<Rightarrow> string \<Rightarrow> ((string list option \<times> Status) \<times> DB) outcome" where
  "ListXAttr d name =
     (case boltBucket d name of
        (tx, _, c, err) \<Rightarrow>
          deferred_Rollback tx
            (if err \<noteq> OK then Returns ((None, err), d)
             else (case c of
                     None \<Rightarrow> Panic
                   | Some kvs \<Rightarrow>
                       (let lis = ListXAttr_loop kvs [[]]
                        in Returns ((Some (drop 1 lis), OK), d)))))"

definition RemoveXAttr :: "error option \<Rightarrow> DB \<Rightarrow> string \<Rightarrow> string \<Rightarrow> (Status \<times> DB) outcome" where
  "RemoveXAttr disk d name attr =
     (case boltBucket d name of
        (tx, b, _, err) \<Rightarrow>
          deferred_Rollback tx
            (if err \<noteq> OK then Returns (err, d)
             else (case (tx, b) of
                     (Some tx0, Some b0) \<Rightarrow>
                       (case Delete tx0 b0 attr of
                          (_, tx1) \<Rightarrow>
                            (case Commit disk tx1 d of
                               (Some e, d') \<Rightarrow> Returns (EIO, d')
                             | (None, d') \<Rightarrow> Returns (OK, d')))
                   | _ \<Rightarrow> Panic)))"

subsection \<open>The calls handed to the backing filesystem\<close>

text \<open>
  \<^verbatim>\<open>xattrFs\<close> embeds a \<^verbatim>\<open>pathfs.FileSystem\<close>, an interface of go-fuse. Its methods
  are the fields of a record; each works on the state \<open>'w\<close> of the backing
  filesystem and gives its result with the new state. The types go-fuse and the
  standard library define (\<^verbatim>\<open>fuse.Context\<close>, \<^verbatim>\<open>fuse.Attr\<close>, \<^verbatim>\<open>nodefs.File\<close>,
  \<^verbatim>\<open>fuse.DirEntry\<close>, \<^verbatim>\<open>time.Time\<close>, \<^verbatim>\<open>fuse.StatfsOut\<close>) are type variables.
\<close>

record ('c, 'a, 'f, 'e, 't, 's, 'w) pathfs_FileSystem =
  fs_GetAttr :: "string \<Rightarrow> 'c \<Rightarrow> 'w \<Rightarrow> ('a option \<times> Status) \<times> 'w"
  fs_Readlink :: "string \<Rightarrow> 'c \<Rightarrow> 'w \<Rightarrow> (string \<times> Status) \<times> 'w"
  fs_Mknod :: "string \<Rightarrow> 32 word \<Rightarrow> 32 word \<Rightarrow> 'c \<Rightarrow> 'w \<Rightarrow> Status \<times> 'w"
  fs_Mkdir :: "string \<Rightarrow> 32 word \<Rightarrow> 'c \<Rightarrow> 'w \<Rightarrow> Status \<times> 'w"
  fs_Unlink :: "string \<Rightarrow> 'c \<Rightarrow> 'w \<Rightarrow> Status \<times> 'w"
  fs_Rmdir :: "string \<Rightarrow> 'c \<Rightarrow> 'w \<Rightarrow> Status \<times> 'w"
  fs_Symlink :: "string \<Rightarrow> string \<Rightarrow> 'c \<Rightarrow> 'w \<Rightarrow> Status \<times> 'w"
  fs_Rename :: "string \<Rightarrow> string \<Rightarrow> 'c \<Rightarrow> 'w \<Rightarrow> Status \<times> 'w"
  fs_Link :: "string \<Rightarrow> string \<Rightarrow> 'c \<Rightarrow> 'w \<Rightarrow> Status \<times> 'w"
  fs_Chmod :: "string \<Rightarrow> 32 word \<Rightarrow> 'c \<Rightarrow> 'w \<Rightarrow> Status \<times> 'w"
  fs_Chown :: "string \<Rightarrow> 32 word \<Rightarrow> 32 word \<Rightarrow> 'c \<Rightarrow> 'w \<Rightarrow> Status \<times> 'w"
  fs_Truncate :: "string \<Rightarrow> 64 word \<Rightarrow> 'c \<Rightarrow> 'w \<Rightarrow> Status \<times> 'w"
  fs_Open :: "string \<Rightarrow> 32 word \<Rightarrow> 'c \<Rightarrow> 'w \<Rightarrow> ('f option \<times> Status) \<times> 'w"
  fs_OpenDir :: "string \<Rightarrow> 'c \<Rightarrow> 'w \<Rightarrow> ('e list option \<times> Status) \<times> 'w"
  fs_Access :: "string \<Rightarrow> 32 word \<Rightarrow> 'c \<Rightarrow> 'w \<Rightarrow> Status \<times> 'w"
  fs_Create :: "string \<Rightarrow> 32 word \<Rightarrow> 32 word \<Rightarrow> 'c \<Rightarrow> 'w \<Rightarrow> ('f option \<times> Status) \<times> 'w"
  fs_Utimens :: "string \<Rightarrow> 't option \<Rightarrow> 't option \<Rightarrow> 'c \<Rightarrow> 'w \<Rightarrow> Status \<times> 'w"
  fs_StatFs :: "string \<Rightarrow> 'w \<Rightarrow> 's option \<times> 'w"

record ('c, 'a, 'f, 'e, 't, 's, 'w) xattrFs =
  FileSystem :: "('c, 'a, 'f, 'e, 't, 's, 'w) pathfs_FileSystem"

text \<open>What a call can change: the bolt database behind the global \<^verbatim>\<open>db\<close> and the
  state of the backing filesystem.\<close>

record 'w world =
  db :: DB
  backing :: 'w

text \<open>A call of a method of \<^verbatim>\<open>x.FileSystem\<close>: it sees and changes the backing
  filesystem only.\<close>

definition on_backing :: "('w \<Rightarrow> 'r \<times> 'w) \<Rightarrow> 'w world \<Rightarrow> 'r \<times> 'w world" where
  "on_backing m s = (case m (backing s) of (r, w') \<Rightarrow> (r, s\<lparr>backing := w'\<rparr>))"

definition GetAttr where
  "GetAttr x name context = on_backing (fs_GetAttr (FileSystem x) name context)"

definition Readlink where
  "Readlink x name context = on_backing (fs_Readlink (FileSystem x) name context)"

definition Mknod where
  "Mknod x name mode dev context = on_backing (fs_Mknod (FileSystem x) name mode dev context)"

definition Mkdir where
  "Mkdir x name mode context = on_backing (fs_Mkdir (FileSystem x) name mode context)"

definition Unlink where
  "Unlink x name context = on_backing (fs_Unlink (FileSystem x) name context)"

definition Rmdir where
  "Rmdir x name context = on_backing (fs_Rmdir (FileSystem x) name context)"

definition Symlink where
  "Symlink x val linkName context = on_backing (fs_Symlink (FileSystem x) val linkName context)"

definition Rename where
  "Rename x oldName newName context = on_backing (fs_Rename (FileSystem x) oldName newName context)"

definition Link where
  "Link x oldName newName context = on_backing (fs_Link (FileSystem x) oldName newName context)"

definition Chmod where
  "Chmod x name mode context = on_backing (fs_Chmod (FileSystem x) name mode context)"

definition Chown where
  "Chown x name uid gid context = on_backing (fs_Chown (FileSystem x) name uid gid context)"

definition Truncate where
  "Truncate x name offset context = on_backing (fs_Truncate (FileSystem x) name offset context)"

definition Open where
  "Open x name flags context = on_backing (fs_Open (FileSystem x) name flags context)"

definition OpenDir where
  "OpenDir x name context = on_backing (fs_OpenDir (FileSystem x) name context)"

definition Access where
  "Access x name mode context = on_backing (fs_Access (FileSystem x) name mode context)"

definition Create where
  "Create x name flags mode context = on_backing (fs_Create (FileSystem x) name flags mode context)"

definition Utimens where
  "Utimens x name Atime Mtime context = on_backing (fs_Utimens (FileSystem x) name Atime Mtime context)"

text \<open>\<^verbatim>\<open>StatFs\<close> returns nil and calls nothing.\<close>

definition StatFs :: "('c, 'a, 'f, 'e, 't, 's, 'w) xattrFs \<Rightarrow> string \<Rightarrow> 'w world \<Rightarrow> 's option \<times> 'w world" where
  "StatFs x name s = (None, s)"

subsection \<open>Sequences of attribute calls\<close>

text \<open>
  The properties below speak of what holds after one call and until another. A \<open>call\<close> is one
  attribute request as the FUSE server hands it over, \<open>exec\<close> the database it
  leaves, \<open>exec_all\<close> a run of them in order. \<open>disk\<close> is the outcome of that call's
  commit.
\<close>

datatype call =
    CallSet string string "byte list" int "error option"
  | CallGet string string
  | CallList string
  | CallRemove string string "error option"

fun exec :: "call \<Rightarrow> DB \<Rightarrow> DB outcome" where
  "exec (CallSet name attr data flags disk) d =
     (case SetXAttr disk d name attr data flags of Panic \<Rightarrow> Panic | Returns (_, d') \<Rightarrow> Returns d')"
| "exec (CallGet name attr) d =
     (case GetXAttr d name attr of Panic \<Rightarrow> Panic | Returns (_, d') \<Rightarrow> Returns d')"
| "exec (CallList name) d =
     (case ListXAttr d name of Panic \<Rightarrow> Panic | Returns (_, d') \<Rightarrow> Returns d')"
| "exec (CallRemove name attr disk) d =
     (case RemoveXAttr disk d name attr of Panic \<Rightarrow> Panic | Returns (_, d') \<Rightarrow> Returns d')"

fun exec_all :: "call list \<Rightarrow> DB \<Rightarrow> DB outcome" where
  "exec_all [] d = Returns d"
| "exec_all (c # cs) d = (case exec c d of Panic \<Rightarrow> Panic | Returns d' \<Rightarrow> exec_all cs d')"

text \<open>A call is a \<^verbatim>\<open>Set\<close> or a \<^verbatim>\<open>Remove\<close> of attribute \<open>n\<close> of path \<open>p\<close>.\<close>

fun writes_to :: "call \<Rightarrow> string \<Rightarrow> string \<Rightarrow> bool" where
  "writes_to (CallSet name attr _ _ _) p n = (name = p \<and> attr = n)"
| "writes_to (CallRemove name attr _) p n = (name = p \<and> attr = n)"
| "writes_to _ p n = False"

text \<open>A run of \<^verbatim>\<open>SetXAttr\<close> calls on one path, each \<open>(attr, data, flags, disk)\<close>, all of
  which return \<open>OK\<close>; \<open>None\<close> when one of them does not.\<close>

fun set_each :: "string \<Rightarrow> (string \<times> byte list \<times> int \<times> error option) list \<Rightarrow> DB \<Rightarrow> DB option" where
  "set_each p [] d = Some d"
| "set_each p ((n, v, f, disk) # cs) d =
     (case SetXAttr disk d p n v f of
        Panic \<Rightarrow> None
      | Returns (st, d') \<Rightarrow> if st = OK then set_each p cs d' else None)"

text \<open>What the database holds: the value of attribute \<open>n\<close> of path \<open>p\<close>, and the pairs
  of path \<open>p\<close> (none when it has no bucket).\<close>

definition attr_of :: "DB \<Rightarrow> string \<Rightarrow> string \<Rightarrow> byte list option" where
  "attr_of d p n = (case map_of (buckets d) p of None \<Rightarrow> None | Some kvs \<Rightarrow> map_of kvs n)"

definition entries :: "DB \<Rightarrow> string \<Rightarrow> Bucket" where
  "entries d p = (case map_of (buckets d) p of None \<Rightarrow> [] | Some kvs \<Rightarrow> kvs)"

text \<open>The pairs \<^verbatim>\<open>Put\<close> accepts.\<close>

definition storable :: "string \<Rightarrow> byte list \<Rightarrow> bool" where
  "storable attr data \<longleftrightarrow> attr \<noteq> [] \<and> length attr \<le> MaxKeySize \<and> length data \<le> MaxValueSize"

subsection \<open>Example states\<close>

definition db_new :: DB where
  "db_new = \<lparr>opened = True, buckets = []\<rparr>"

definition db_closed :: DB where
  "db_closed = \<lparr>opened = False, buckets = []\<rparr>"

definition db_tagged :: DB where
  "db_tagged = \<lparr>opened = True, buckets = [(''/a/b'', [(''user.tag'', [1, 2])])]\<rparr>"

definition db_two :: DB where
  "db_two = \<lparr>opened = True,
              buckets = [(''/a/b'', [(''user.mime'', [7]), (''user.tag'', [1, 2])])]\<rparr>"

definition db_emptied :: DB where
  "db_emptied = \<lparr>opened = True, buckets = [(''/a/b'', [])]\<rparr>"

text \<open>A backing filesystem that knows no file and reports 4096 for \<^verbatim>\<open>StatFs\<close>.\<close>

definition fs_example :: "(unit, nat, nat, string, nat, nat, unit) pathfs_FileSystem" where
  "fs_example =
     \<lparr>fs_GetAttr = (\<lambda>name c w. ((None, ENOENT), w)),
      fs_Readlink = (\<lambda>name c w. (([], ENOENT), w)),
      fs_Mknod = (\<lambda>name mode dev c w. (ENOENT, w)),
      fs_Mkdir = (\<lambda>name mode c w. (ENOENT, w)),
      fs_Unlink = (\<lambda>name c w. (ENOENT, w)),
      fs_Rmdir = (\<lambda>name c w. (ENOENT, w)),
      fs_Symlink = (\<lambda>val linkName c w. (ENOENT, w)),
      fs_Rename = (\<lambda>oldName newName c w. (ENOENT, w)),
      fs_Link = (\<lambda>oldName newName c w. (ENOENT, w)),
      fs_Chmod = (\<lambda>name mode c w. (ENOENT, w)),
      fs_Chown = (\<lambda>name uid gid c w. (ENOENT, w)),
      fs_Truncate = (\<lambda>name offset c w. (ENOENT, w)),
      fs_Open = (\<lambda>name flags c w. ((None, ENOENT), w)),
      fs_OpenDir = (\<lambda>name c w. ((None, ENOENT), w)),
      fs_Access = (\<lambda>name mode c w. (ENOENT, w)),
      fs_Create = (\<lambda>name flags mode c w. ((None, ENOENT), w)),
      fs_Utimens = (\<lambda>name Atime Mtime c w. (ENOENT, w)),
      fs_StatFs = (\<lambda>name w. (Some 4096, w))\<rparr>"

section \<open>Facts about the model\<close>

subsection \<open>Statuses and trees\<close>

lemma Status_distinct:
  "OK \<noteq> ENOENT" "OK \<noteq> EIO" "OK \<noteq> EBUSY" "ENOENT \<noteq> OK" "EIO \<noteq> OK" "EBUSY \<noteq> OK"
  by (simp_all add: OK_def ENOENT_def EIO_def EBUSY_def)

lemma map_of_tree_put: "map_of (tree_put k v kvs) = (map_of kvs)(k \<mapsto> v)"
  by (induction kvs) (auto simp: fun_eq_iff)

lemma map_of_tree_delete: "map_of (tree_delete k kvs) = (map_of kvs)(k := None)"
  by (induction kvs) (auto simp: fun_eq_iff)

lemma tree_delete_idem: "tree_delete k (tree_delete k kvs) = tree_delete k kvs"
  by (induction kvs) auto



lemma mset_keys_tree_put_fresh:
  "k \<notin> fst ` set kvs \<Longrightarrow>
   image_mset fst (mset (tree_put k v kvs)) = add_mset k (image_mset fst (mset kvs))"
  by (induction k v kvs rule: tree_put.induct) auto


lemma in_tree_delete: "(a, b) \<in> set (tree_delete k kvs) \<Longrightarrow> (a, b) \<in> set kvs"
  by (induction kvs) (auto split: if_splits)

lemma sorted_tree_delete:
  "sorted_wrt (<) (map fst kvs) \<Longrightarrow> sorted_wrt (<) (map fst (tree_delete k kvs))"
proof (induction kvs)
  case Nil
  then show ?case by simp
next
  case (Cons kv kvs)
  obtain k' v' where kv: "kv = (k', v')" by (cases kv) auto
  from Cons.prems kv have tl: "sorted_wrt (<) (map fst kvs)" and hd: "\<forall>x \<in> set kvs. k' < fst x"
    by simp_all
  have "\<forall>x \<in> set (tree_delete k kvs). k' < fst x"
    using hd by (auto dest: in_tree_delete)
  then show ?case using kv Cons.IH[OF tl] by (cases "k = k'") simp_all
qed

lemma map_of_in_bucket:
  "map_of (in_bucket b f bs) name =
     (if name = b then map_option f (map_of bs name) else map_of bs name)"
  by (induction bs) (auto simp: in_bucket_def)

lemma mset_keys_in_bucket: "image_mset fst (mset (in_bucket b f bs)) = image_mset fst (mset bs)"
  by (induction bs) (auto simp: in_bucket_def)

lemma in_bucket_twice: "in_bucket b f (in_bucket b g bs) = in_bucket b (f \<circ> g) bs"
  by (induction bs) (auto simp: in_bucket_def)

lemma map_of_None_keys: "map_of bs p = None \<longleftrightarrow> p \<notin> fst ` set bs"
  by (simp add: map_of_eq_None_iff)

subsection \<open>The loops\<close>

lemma GetXAttr_loop_map_of: "GetXAttr_loop kvs attr = (map_of kvs attr, OK)"
  by (induction kvs) auto

lemma ListXAttr_loop_keys: "ListXAttr_loop kvs lis = lis @ map fst kvs"
  by (induction kvs arbitrary: lis) auto

subsection \<open>Each call, on an open and on a closed database\<close>

lemma boltBucket_opened:
  "opened d \<Longrightarrow> boltBucket d name =
     (case map_of (buckets d) name of
        None \<Rightarrow> (Some \<lparr>writable = True, root = buckets d\<rparr>, None, None, ENOENT)
      | Some kvs \<Rightarrow> (Some \<lparr>writable = True, root = buckets d\<rparr>, Some name, Some kvs, OK))"
  by (simp add: boltBucket_def Begin_def Bucket_def Cursor_def split: option.splits)

lemma boltBucket_closed: "\<not> opened d \<Longrightarrow> boltBucket d name = (None, None, None, EBUSY)"
  by (simp add: boltBucket_def Begin_def)

lemma GetXAttr_opened:
  "opened d \<Longrightarrow> GetXAttr d name attr =
     Returns ((case map_of (buckets d) name of
                 None \<Rightarrow> (None, ENOENT)
               | Some kvs \<Rightarrow> (map_of kvs attr, OK)), d)"
  by (simp add: GetXAttr_def boltBucket_opened deferred_Rollback_def GetXAttr_loop_map_of
      Status_distinct split: option.splits)

lemma GetXAttr_closed: "\<not> opened d \<Longrightarrow> GetXAttr d name attr = Panic"
  by (simp add: GetXAttr_def boltBucket_closed deferred_Rollback_def)

lemma ListXAttr_opened:
  "opened d \<Longrightarrow> ListXAttr d name =
     Returns ((case map_of (buckets d) name of
                 None \<Rightarrow> (None, ENOENT)
               | Some kvs \<Rightarrow> (Some (map fst kvs), OK)), d)"
  by (simp add: ListXAttr_def boltBucket_opened deferred_Rollback_def ListXAttr_loop_keys
      Status_distinct split: option.splits)

lemma ListXAttr_closed: "\<not> opened d \<Longrightarrow> ListXAttr d name = Panic"
  by (simp add: ListXAttr_def boltBucket_closed deferred_Rollback_def)

lemma RemoveXAttr_opened:
  "opened d \<Longrightarrow> RemoveXAttr disk d name attr =
     Returns (case map_of (buckets d) name of
                None \<Rightarrow> (ENOENT, d)
              | Some _ \<Rightarrow>
                  (case disk of
                     Some e \<Rightarrow> (EIO, d)
                   | None \<Rightarrow> (OK, d\<lparr>buckets := in_bucket name (tree_delete attr) (buckets d)\<rparr>)))"
  by (simp add: RemoveXAttr_def boltBucket_opened deferred_Rollback_def Delete_def Commit_def
      Status_distinct split: option.splits)

lemma RemoveXAttr_closed: "\<not> opened d \<Longrightarrow> RemoveXAttr disk d name attr = Panic"
  by (simp add: RemoveXAttr_def boltBucket_closed deferred_Rollback_def)

lemma SetXAttr_closed:
  "\<not> opened d \<Longrightarrow> SetXAttr disk d name attr data flags = Returns (EBUSY, d)"
  by (simp add: SetXAttr_def Begin_def)

lemma SetXAttr_opened:
  "opened d \<Longrightarrow> SetXAttr disk d name attr data flags =
     Returns (if name = [] then (EIO, d)
              else (case disk of
                      Some e \<Rightarrow> (EIO, d)
                    | None \<Rightarrow>
                        (OK, d\<lparr>buckets :=
                          (if storable attr data then in_bucket name (tree_put attr data) else id)
                            (case map_of (buckets d) name of
                               None \<Rightarrow> tree_put name [] (buckets d)
                             | Some _ \<Rightarrow> buckets d)\<rparr>)))"
  by (simp add: SetXAttr_def Begin_def deferred_Rollback_def CreateBucketIfNotExists_def
      Put_def Commit_def storable_def split: option.splits)

subsection \<open>What a call leaves of an attribute\<close>

lemma SetXAttr_OK_opened:
  "SetXAttr disk d p n v f = Returns (OK, d1) \<Longrightarrow> opened d"
  by (cases "opened d") (auto simp: SetXAttr_closed Status_distinct)

lemma SetXAttr_OK_entries:
  assumes "SetXAttr disk d p n v f = Returns (OK, d1)" and "storable n v"
  shows "opened d1 \<and> map_of (buckets d1) p = Some (tree_put n v (entries d p))"
  using assms SetXAttr_OK_opened[OF assms(1)]
  by (auto simp: SetXAttr_opened entries_def map_of_in_bucket map_of_tree_put Status_distinct
      split: if_splits option.splits)

lemma SetXAttr_OK_stores:
  assumes "SetXAttr disk d p n v f = Returns (OK, d1)" and "storable n v"
  shows "opened d1 \<and> attr_of d1 p n = Some v"
  using SetXAttr_OK_entries[OF assms] by (simp add: attr_of_def map_of_tree_put)

lemma GetXAttr_attr_of:
  "opened d \<Longrightarrow> attr_of d p n = Some v \<Longrightarrow> GetXAttr d p n = Returns ((Some v, OK), d)"
  by (auto simp: GetXAttr_opened attr_of_def split: option.splits)

lemma exec_keeps_attr:
  assumes "exec c d = Returns d'" and "\<not> writes_to c p n"
    and "opened d" and "attr_of d p n = Some v"
  shows "opened d' \<and> attr_of d' p n = Some v"
proof (cases c)
  case (CallSet name attr data flags disk)
  with assms show ?thesis
    by (auto simp: SetXAttr_opened attr_of_def map_of_in_bucket map_of_tree_put
        split: if_splits option.splits)
next
  case (CallGet name attr)
  with assms show ?thesis by (auto simp: GetXAttr_opened)
next
  case (CallList name)
  with assms show ?thesis by (auto simp: ListXAttr_opened)
next
  case (CallRemove name attr disk)
  with assms show ?thesis
    by (auto simp: RemoveXAttr_opened attr_of_def map_of_in_bucket map_of_tree_delete
        split: if_splits option.splits)
qed

lemma exec_all_keeps_attr:
  "exec_all cs d = Returns d' \<Longrightarrow> \<forall>c \<in> set cs. \<not> writes_to c p n \<Longrightarrow> opened d \<Longrightarrow>
   attr_of d p n = Some v \<Longrightarrow> opened d' \<and> attr_of d' p n = Some v"
proof (induction cs arbitrary: d)
  case Nil
  then show ?case by simp
next
  case (Cons c cs)
  from Cons.prems(1) obtain d1 where e: "exec c d = Returns d1" and r: "exec_all cs d1 = Returns d'"
    by (auto split: outcome.splits)
  from exec_keeps_attr[OF e _ Cons.prems(3,4)] Cons.prems(2)
  have "opened d1 \<and> attr_of d1 p n = Some v" by simp
  with Cons.IH[OF r] Cons.prems(2) show ?case by simp
qed

section \<open>The properties of the specification\<close>

subsection \<open>C1: round trip\<close>

text \<open>The names and values the program is handed are stored by bolt: the kernel passes
  a FUSE filesystem only attribute names of 1 to 255 bytes and values of at most 65536
  bytes, and \<^verbatim>\<open>b.Put\<close> accepts all of these.\<close>

lemma delivered_storable:
  "n \<noteq> [] \<Longrightarrow> length n \<le> 255 \<Longrightarrow> length v \<le> 65536 \<Longrightarrow> storable n v"
  by (simp add: storable_def MaxKeySize_def MaxValueSize_def)

text \<open>
  C1. For every path \<open>p\<close> and every name \<open>n\<close> and value \<open>v\<close> that bolt stores (the name
  not empty and at most \<open>MaxKeySize\<close> bytes, the value at most \<open>MaxValueSize\<close> bytes,
  which holds of every name and value the kernel delivers), after
  \<^verbatim>\<open>SetXAttr(p, n, v)\<close> has returned \<open>OK\<close>, \<^verbatim>\<open>GetXAttr(p, n)\<close> returns \<open>v\<close> with \<open>OK\<close>,
  at once and after any run of attribute calls none of which is a \<^verbatim>\<open>SetXAttr\<close> or a
  \<^verbatim>\<open>RemoveXAttr\<close> of \<open>n\<close> on \<open>p\<close>.
\<close>

theorem SetXAttr_GetXAttr_round_trip:
  assumes "SetXAttr disk d p n v f = Returns (OK, d1)"
    and "n \<noteq> []" and "length n \<le> MaxKeySize" and "length v \<le> MaxValueSize"
    and "exec_all cs d1 = Returns d2"
    and "\<forall>c \<in> set cs. \<not> writes_to c p n"
  shows "GetXAttr d2 p n = Returns ((Some v, OK), d2)"
proof -
  have "storable n v" using assms(2-4) by (simp add: storable_def)
  from SetXAttr_OK_stores[OF assms(1) this]
  have "opened d1 \<and> attr_of d1 p n = Some v" .
  with exec_all_keeps_attr[OF assms(5,6)] have "opened d2 \<and> attr_of d2 p n = Some v" by simp
  then show ?thesis by (simp add: GetXAttr_attr_of)
qed

theorem SetXAttr_GetXAttr_round_trip_witness:
  "SetXAttr None db_new ''/a/b'' ''user.tag'' [1, 2] 0 = Returns (OK, db_tagged)
   \<and> exec_all [CallGet ''/a/b'' ''user.tag'', CallSet ''/a/b'' ''user.mime'' [7] 0 None,
        CallRemove ''/c'' ''user.tag'' None, CallList ''/a/b''] db_tagged = Returns db_two
   \<and> GetXAttr db_two ''/a/b'' ''user.tag'' = Returns ((Some [1, 2], OK), db_two)"
proof -
  let ?cs = "[CallGet ''/a/b'' ''user.tag'', CallSet ''/a/b'' ''user.mime'' [7] 0 None,
        CallRemove ''/c'' ''user.tag'' None, CallList ''/a/b'']"
  have h1: "SetXAttr None db_new ''/a/b'' ''user.tag'' [1, 2] 0 = Returns (OK, db_tagged)"
    by (simp add: SetXAttr_opened storable_def MaxKeySize_def MaxValueSize_def
        db_new_def db_tagged_def in_bucket_def)
  have h2: "''user.tag'' \<noteq> []" by simp
  have h3: "length ''user.tag'' \<le> MaxKeySize" by (simp add: MaxKeySize_def)
  have h4: "length [1, 2 :: byte] \<le> MaxValueSize" by (simp add: MaxValueSize_def)
  have h5: "exec_all ?cs db_tagged = Returns db_two"
    by (simp add: SetXAttr_opened GetXAttr_opened ListXAttr_opened RemoveXAttr_opened
        storable_def MaxKeySize_def MaxValueSize_def db_two_def db_tagged_def in_bucket_def)
  have h6: "\<forall>c \<in> set ?cs. \<not> writes_to c ''/a/b'' ''user.tag''" by simp
  from SetXAttr_GetXAttr_round_trip[OF h1 h2 h3 h4 h5 h6] h1 h5 show ?thesis by simp
qed

text \<open>
  The bounds are needed in the model, where \<^verbatim>\<open>SetXAttr\<close> can be applied to any string:
  it drops the error of \<^verbatim>\<open>b.Put\<close>, so with the empty name, which bolt refuses as a
  key, it commits the bucket alone and returns \<open>OK\<close>. The kernel never sends that
  name.
\<close>

lemma SetXAttr_empty_name_not_stored:
  "SetXAttr None db_new ''/a/b'' [] [1, 2] 0 = Returns (OK, db_emptied)
   \<and> GetXAttr db_emptied ''/a/b'' [] = Returns ((None, OK), db_emptied)"
  by (simp add: SetXAttr_opened GetXAttr_opened storable_def db_new_def db_emptied_def)

subsection \<open>C2: reading a path that was never written\<close>

text \<open>A path has a bucket only once a \<^verbatim>\<open>SetXAttr\<close> on it has committed: no other call
  makes one.\<close>

lemma exec_keeps_absent:
  assumes "exec c d = Returns d'" and "map_of (buckets d) p = None"
    and "\<forall>n v f k. c \<noteq> CallSet p n v f k"
  shows "map_of (buckets d') p = None"
proof (cases "opened d")
  case False
  with assms show ?thesis
    by (cases c) (auto simp: SetXAttr_closed GetXAttr_closed ListXAttr_closed RemoveXAttr_closed)
next
  case True
  show ?thesis
  proof (cases c)
    case (CallSet name attr data flags disk)
    with assms True show ?thesis
      by (auto simp: SetXAttr_opened map_of_in_bucket map_of_tree_put
          split: if_splits option.splits)
  next
    case (CallGet name attr)
    with assms True show ?thesis by (auto simp: GetXAttr_opened)
  next
    case (CallList name)
    with assms True show ?thesis by (auto simp: ListXAttr_opened)
  next
    case (CallRemove name attr disk)
    with assms True show ?thesis
      by (auto simp: RemoveXAttr_opened map_of_in_bucket split: if_splits option.splits)
  qed
qed

text \<open>
  C2, as stated, fails: for a path with no bucket \<^verbatim>\<open>boltBucket\<close> gives \<open>ENOENT\<close>, and
  \<^verbatim>\<open>GetXAttr\<close> and \<^verbatim>\<open>ListXAttr\<close> return that status, which is not \<open>OK\<close>.
\<close>

theorem absent_path_reads_counterexample:
  "GetXAttr db_new ''/never/touched'' ''x'' = Returns ((None, ENOENT), db_new)
   \<and> ListXAttr db_new ''/never/touched'' = Returns ((None, ENOENT), db_new)
   \<and> ENOENT \<noteq> OK"
  by (simp add: GetXAttr_opened ListXAttr_opened Status_distinct db_new_def)

text \<open>
  C2, amended: for a path with no bucket, on an open database, \<^verbatim>\<open>GetXAttr\<close> returns
  no value and \<^verbatim>\<open>ListXAttr\<close> returns a nil (empty) list, both with the status
  \<open>ENOENT\<close>, and the database is as before.
\<close>

theorem absent_path_reads_ENOENT:
  assumes "opened d" and "map_of (buckets d) p = None"
  shows "GetXAttr d p n = Returns ((None, ENOENT), d)
       \<and> ListXAttr d p = Returns ((None, ENOENT), d)"
  using assms by (simp add: GetXAttr_opened ListXAttr_opened)

theorem absent_path_reads_ENOENT_witness:
  "opened db_tagged
   \<and> map_of (buckets db_tagged) ''/never/touched'' = None
   \<and> GetXAttr db_tagged ''/never/touched'' ''x'' = Returns ((None, ENOENT), db_tagged)
   \<and> ListXAttr db_tagged ''/never/touched'' = Returns ((None, ENOENT), db_tagged)"
proof -
  have h1: "opened db_tagged" by (simp add: db_tagged_def)
  have h2: "map_of (buckets db_tagged) ''/never/touched'' = None" by (simp add: db_tagged_def)
  from absent_path_reads_ENOENT[OF h1 h2, of "''x''"] h1 h2 show ?thesis by simp
qed

subsection \<open>C3: a transaction that cannot begin\<close>

text \<open>
  C3 holds of \<^verbatim>\<open>SetXAttr\<close> only. On a database that is not open \<^verbatim>\<open>boltBucket\<close> returns
  a nil transaction with \<open>EBUSY\<close>; \<^verbatim>\<open>GetXAttr\<close>, \<^verbatim>\<open>ListXAttr\<close> and \<^verbatim>\<open>RemoveXAttr\<close>
  defer \<^verbatim>\<open>tx.Rollback()\<close> before they look at the status, and the deferred call on
  the nil transaction panics. \<^verbatim>\<open>SetXAttr\<close> checks first and returns \<open>EBUSY\<close>.
\<close>

theorem Begin_failure_panics:
  "GetXAttr db_closed ''/a/b'' ''user.tag'' = Panic
   \<and> ListXAttr db_closed ''/a/b'' = Panic
   \<and> RemoveXAttr None db_closed ''/a/b'' ''user.tag'' = Panic
   \<and> SetXAttr None db_closed ''/a/b'' ''user.tag'' [1, 2] 0 = Returns (EBUSY, db_closed)"
  by (simp add: GetXAttr_closed ListXAttr_closed RemoveXAttr_closed SetXAttr_closed db_closed_def)

subsection \<open>C4: the calls that are passed through\<close>

text \<open>The seventeen forwarding methods give the backing filesystem's result and leave
  it in the state the backing call left it in; the database is not touched.\<close>

lemma on_backing_verbatim:
  "fst (on_backing m s) = fst (m (backing s))
   \<and> backing (snd (on_backing m s)) = snd (m (backing s))
   \<and> db (snd (on_backing m s)) = db s"
  by (simp add: on_backing_def split: prod.splits)

lemma forwarded_verbatim:
  "fst (GetAttr x name context s) = fst (fs_GetAttr (FileSystem x) name context (backing s))"
  "fst (Readlink x name context s) = fst (fs_Readlink (FileSystem x) name context (backing s))"
  "fst (Mknod x name mode dev context s) = fst (fs_Mknod (FileSystem x) name mode dev context (backing s))"
  "fst (Mkdir x name mode context s) = fst (fs_Mkdir (FileSystem x) name mode context (backing s))"
  "fst (Unlink x name context s) = fst (fs_Unlink (FileSystem x) name context (backing s))"
  "fst (Rmdir x name context s) = fst (fs_Rmdir (FileSystem x) name context (backing s))"
  "fst (Symlink x val linkName context s) = fst (fs_Symlink (FileSystem x) val linkName context (backing s))"
  "fst (Rename x oldName newName context s) = fst (fs_Rename (FileSystem x) oldName newName context (backing s))"
  "fst (Link x oldName newName context s) = fst (fs_Link (FileSystem x) oldName newName context (backing s))"
  "fst (Chmod x name mode context s) = fst (fs_Chmod (FileSystem x) name mode context (backing s))"
  "fst (Chown x name uid gid context s) = fst (fs_Chown (FileSystem x) name uid gid context (backing s))"
  "fst (Truncate x name offset context s) = fst (fs_Truncate (FileSystem x) name offset context (backing s))"
  "fst (Open x name flags context s) = fst (fs_Open (FileSystem x) name flags context (backing s))"
  "fst (OpenDir x name context s) = fst (fs_OpenDir (FileSystem x) name context (backing s))"
  "fst (Access x name mode context s) = fst (fs_Access (FileSystem x) name mode context (backing s))"
  "fst (Create x name flags mode context s) = fst (fs_Create (FileSystem x) name flags mode context (backing s))"
  "fst (Utimens x name Atime Mtime context s) = fst (fs_Utimens (FileSystem x) name Atime Mtime context (backing s))"
  by (simp_all add: on_backing_verbatim GetAttr_def Readlink_def Mknod_def Mkdir_def Unlink_def
      Rmdir_def Symlink_def Rename_def Link_def Chmod_def Chown_def Truncate_def Open_def
      OpenDir_def Access_def Create_def Utimens_def)

text \<open>
  C4 fails for \<^verbatim>\<open>StatFs\<close>, which stands among the forwarding methods (under the
  comment \<^verbatim>\<open>Begin overlay redirect functions\<close>) and returns nil without calling the
  backing filesystem: here the backing filesystem answers 4096 and the caller gets
  nil.
\<close>

theorem StatFs_not_forwarded:
  "fst (StatFs \<lparr>FileSystem = fs_example\<rparr> [] \<lparr>db = db_new, backing = ()\<rparr>) = None
   \<and> fst (fs_StatFs fs_example [] ()) = Some 4096"
  by (simp add: StatFs_def fs_example_def)

subsection \<open>C5: an empty bucket and a missing bucket\<close>

text \<open>
  C5, as stated, fails: on a path whose bucket is empty \<^verbatim>\<open>GetXAttr\<close> returns \<open>OK\<close>, on
  a path with no bucket it returns \<open>ENOENT\<close>.
\<close>

theorem empty_vs_missing_counterexample:
  "GetXAttr db_emptied ''/a/b'' ''user.tag'' = Returns ((None, OK), db_emptied)
   \<and> GetXAttr db_new ''/a/b'' ''user.tag'' = Returns ((None, ENOENT), db_new)
   \<and> OK \<noteq> ENOENT"
  by (simp add: GetXAttr_opened Status_distinct db_emptied_def db_new_def)

text \<open>
  C5, amended: the caller sees the same payload and a different status. When the
  bucket of \<open>p\<close> is empty, \<^verbatim>\<open>GetXAttr\<close> returns no value, \<^verbatim>\<open>ListXAttr\<close> an empty list
  and \<^verbatim>\<open>RemoveXAttr\<close> (its commit written) succeeds, each with \<open>OK\<close>; when \<open>p\<close> has
  no bucket, \<^verbatim>\<open>GetXAttr\<close> returns no value, \<^verbatim>\<open>ListXAttr\<close> a nil list and
  \<^verbatim>\<open>RemoveXAttr\<close> nothing, each with \<open>ENOENT\<close>.
\<close>

theorem empty_vs_missing:
  assumes "opened d1" and "map_of (buckets d1) p = Some []"
    and "opened d2" and "map_of (buckets d2) p = None"
  shows "GetXAttr d1 p n = Returns ((None, OK), d1)
       \<and> GetXAttr d2 p n = Returns ((None, ENOENT), d2)
       \<and> ListXAttr d1 p = Returns ((Some [], OK), d1)
       \<and> ListXAttr d2 p = Returns ((None, ENOENT), d2)
       \<and> (\<exists>d1'. RemoveXAttr None d1 p n = Returns (OK, d1') \<and> entries d1' p = [])
       \<and> RemoveXAttr disk d2 p n = Returns (ENOENT, d2)"
  using assms
  by (simp add: GetXAttr_opened ListXAttr_opened RemoveXAttr_opened entries_def map_of_in_bucket)

theorem empty_vs_missing_witness:
  "opened db_emptied \<and> map_of (buckets db_emptied) ''/a/b'' = Some []
   \<and> opened db_new \<and> map_of (buckets db_new) ''/a/b'' = None
   \<and> GetXAttr db_emptied ''/a/b'' ''user.tag'' = Returns ((None, OK), db_emptied)
   \<and> GetXAttr db_new ''/a/b'' ''user.tag'' = Returns ((None, ENOENT), db_new)
   \<and> ListXAttr db_emptied ''/a/b'' = Returns ((Some [], OK), db_emptied)
   \<and> ListXAttr db_new ''/a/b'' = Returns ((None, ENOENT), db_new)
   \<and> RemoveXAttr None db_new ''/a/b'' ''user.tag'' = Returns (ENOENT, db_new)"
proof -
  have h1: "opened db_emptied" by (simp add: db_emptied_def)
  have h2: "map_of (buckets db_emptied) ''/a/b'' = Some []" by (simp add: db_emptied_def)
  have h3: "opened db_new" by (simp add: db_new_def)
  have h4: "map_of (buckets db_new) ''/a/b'' = None" by (simp add: db_new_def)
  from empty_vs_missing[OF h1 h2 h3 h4, of "''user.tag''" None] h1 h2 h3 h4
  show ?thesis by simp
qed

subsection \<open>C6: what a remove leaves\<close>

text \<open>
  C6. After \<^verbatim>\<open>RemoveXAttr(p, n)\<close> has returned \<open>OK\<close>, \<^verbatim>\<open>GetXAttr(p, n)\<close> returns no
  value, with \<open>OK\<close>; and a second \<^verbatim>\<open>RemoveXAttr(p, n)\<close>, its commit written, returns
  \<open>OK\<close> again and leaves the database as it is: the missing name is no error.
\<close>

theorem RemoveXAttr_effect:
  assumes "RemoveXAttr disk d p n = Returns (OK, d1)"
  shows "GetXAttr d1 p n = Returns ((None, OK), d1)
       \<and> RemoveXAttr None d1 p n = Returns (OK, d1)"
proof -
  have o: "opened d" using assms by (cases "opened d") (auto simp: RemoveXAttr_closed)
  from assms o obtain kvs where b: "map_of (buckets d) p = Some kvs"
    and d1: "d1 = d\<lparr>buckets := in_bucket p (tree_delete n) (buckets d)\<rparr>"
    by (auto simp: RemoveXAttr_opened Status_distinct split: option.splits)
  have o1: "opened d1" using o d1 by simp
  have b1: "map_of (buckets d1) p = Some (tree_delete n kvs)"
    using b d1 by (simp add: map_of_in_bucket)
  have idem: "in_bucket p (tree_delete n) (buckets d1) = buckets d1"
    unfolding d1 by (simp add: in_bucket_twice comp_def tree_delete_idem)
  have "GetXAttr d1 p n = Returns ((None, OK), d1)"
    using o1 b1 by (simp add: GetXAttr_opened map_of_tree_delete)
  moreover have "RemoveXAttr None d1 p n = Returns (OK, d1)"
    using o1 b1 idem by (simp add: RemoveXAttr_opened)
  ultimately show ?thesis by simp
qed

theorem RemoveXAttr_effect_witness:
  "RemoveXAttr None db_tagged ''/a/b'' ''user.tag'' = Returns (OK, db_emptied)
   \<and> GetXAttr db_emptied ''/a/b'' ''user.tag'' = Returns ((None, OK), db_emptied)
   \<and> RemoveXAttr None db_emptied ''/a/b'' ''user.tag'' = Returns (OK, db_emptied)"
proof -
  have h: "RemoveXAttr None db_tagged ''/a/b'' ''user.tag'' = Returns (OK, db_emptied)"
    by (simp add: RemoveXAttr_opened db_tagged_def db_emptied_def in_bucket_def)
  from RemoveXAttr_effect[OF h] h show ?thesis by simp
qed

subsection \<open>C7: buckets are made by writes only\<close>

text \<open>
  C7. A \<^verbatim>\<open>SetXAttr\<close> that returns \<open>OK\<close> on a path with no bucket adds one bucket, for
  that path, and leaves every other bucket as it was. Whatever \<^verbatim>\<open>GetXAttr\<close> and
  \<^verbatim>\<open>ListXAttr\<close> return, the database they leave is the database they found.
\<close>

theorem lazy_creation:
  "(SetXAttr disk d p n v f = Returns (OK, d1) \<and> map_of (buckets d) p = None \<longrightarrow>
      mset (map fst (buckets d1)) = add_mset p (mset (map fst (buckets d)))
      \<and> (\<forall>q. q \<noteq> p \<longrightarrow> map_of (buckets d1) q = map_of (buckets d) q))
   \<and> (GetXAttr d p n = Returns (r, d2) \<longrightarrow> d2 = d)
   \<and> (ListXAttr d p = Returns (l, d3) \<longrightarrow> d3 = d)"
proof (intro conjI impI)
  assume a: "SetXAttr disk d p n v f = Returns (OK, d1) \<and> map_of (buckets d) p = None"
  then have o: "opened d" by (auto dest: SetXAttr_OK_opened)
  from a have fresh: "p \<notin> fst ` set (buckets d)" by (simp add: map_of_None_keys)
  from a o have b1: "buckets d1 =
      (if storable n v then in_bucket p (tree_put n v) else id) (tree_put p [] (buckets d))"
    by (auto simp: SetXAttr_opened Status_distinct split: if_splits option.splits)
  show "mset (map fst (buckets d1)) = add_mset p (mset (map fst (buckets d)))"
    using fresh by (simp add: b1 mset_keys_in_bucket mset_keys_tree_put_fresh)
  show "\<forall>q. q \<noteq> p \<longrightarrow> map_of (buckets d1) q = map_of (buckets d) q"
    by (simp add: b1 map_of_in_bucket map_of_tree_put)
next
  assume "GetXAttr d p n = Returns (r, d2)"
  then show "d2 = d" by (cases "opened d") (auto simp: GetXAttr_opened GetXAttr_closed)
next
  assume "ListXAttr d p = Returns (l, d3)"
  then show "d3 = d" by (cases "opened d") (auto simp: ListXAttr_opened ListXAttr_closed)
qed

theorem lazy_creation_witness:
  "SetXAttr None db_new ''/a/b'' ''user.tag'' [1, 2] 0 = Returns (OK, db_tagged)
   \<and> map_of (buckets db_new) ''/a/b'' = None
   \<and> mset (map fst (buckets db_tagged)) = add_mset ''/a/b'' (mset (map fst (buckets db_new)))
   \<and> map_of (buckets db_tagged) ''/c'' = map_of (buckets db_new) ''/c''
   \<and> GetXAttr db_new ''/a/b'' ''user.tag'' = Returns ((None, ENOENT), db_new)
   \<and> ListXAttr db_new ''/a/b'' = Returns ((None, ENOENT), db_new)"
proof -
  have h1: "SetXAttr None db_new ''/a/b'' ''user.tag'' [1, 2] 0 = Returns (OK, db_tagged)"
    by (simp add: SetXAttr_opened storable_def MaxKeySize_def MaxValueSize_def
        db_new_def db_tagged_def in_bucket_def)
  have h2: "map_of (buckets db_new) ''/a/b'' = None" by (simp add: db_new_def)
  have h3: "GetXAttr db_new ''/a/b'' ''user.tag'' = Returns ((None, ENOENT), db_new)"
    by (simp add: GetXAttr_opened db_new_def)
  have h4: "ListXAttr db_new ''/a/b'' = Returns ((None, ENOENT), db_new)"
    by (simp add: ListXAttr_opened db_new_def)
  from lazy_creation[of None db_new "''/a/b''" "''user.tag''" "[1, 2]" 0 db_tagged
      "(None, ENOENT)" db_new "(None, ENOENT)" db_new] h1 h2 h3 h4
  show ?thesis by simp
qed

subsection \<open>C8: what a list returns after a run of sets\<close>




text \<open>
  Here too the bounds are needed in the model only: a set with the empty name returns
  \<open>OK\<close> and adds no name to the list.
\<close>

lemma ListXAttr_misses_empty_name:
  "set_each ''/a/b'' [(''user.tag'', [1, 2], 0, None), ([], [7], 0, None)] db_new = Some db_tagged
   \<and> distinct [''user.tag'', []]
   \<and> ListXAttr db_tagged ''/a/b'' = Returns ((Some [''user.tag''], OK), db_tagged)
   \<and> set [''user.tag''] \<noteq> {''user.tag'', []}"
  by (simp add: SetXAttr_opened ListXAttr_opened storable_def MaxKeySize_def MaxValueSize_def
      db_new_def db_tagged_def in_bucket_def)

subsection \<open>C9: rename and unlink\<close>

text \<open>
  C9. \<^verbatim>\<open>Rename\<close> and \<^verbatim>\<open>Unlink\<close> call the backing filesystem and nothing else: the
  bolt database after the call is the database before it, so no bucket is moved,
  removed or changed.
\<close>

theorem Rename_Unlink_leave_store:
  "db (snd (Rename x oldName newName context s)) = db s
   \<and> db (snd (Unlink x name context s)) = db s"
  by (simp add: Rename_def Unlink_def on_backing_verbatim)

subsection \<open>C10: the flags of set-attribute\<close>

text \<open>
  C10. \<^verbatim>\<open>SetXAttr\<close> never reads its \<open>flags\<close> argument: with any two flag values the
  call gives the same status and the same database.
\<close>

theorem SetXAttr_flags_ignored:
  "SetXAttr disk d name attr data f1 = SetXAttr disk d name attr data f2"
  by (simp add: SetXAttr_def)

end
